theory Spec2Isabelle
  imports Complex_Main "HOL-Library.Word" "HOL-Library.Sublist"
begin

section \<open>Python values used by app.py\<close>

text \<open>
  The exceptions of Python that the modelled code can raise. A function that can raise
  returns \<open>py_error + 'a\<close>, with \<open>Inl\<close> for the exception.
\<close>

datatype py_error = OverflowError | ValueError | ZeroDivisionError | AttributeError

subsection \<open>Binary64 floats\<close>

text \<open>
  \<open>opacity_to_255\<close> computes in Python floats (IEEE 754 binary64, round to nearest,
  ties to even). A finite float is \<open>Finite m e\<close>, the number \<open>m * 2 ^ e\<close>; the sign of
  a zero is not kept, since \<open>int()\<close> cannot see it.
\<close>

datatype pyfloat = Finite int int | Inf bool | NaN

fun bit_length :: "nat \<Rightarrow> nat" where
  "bit_length n = (if n = 0 then 0 else Suc (bit_length (n div 2)))"

declare bit_length.simps [simp del]

text \<open>
  \<open>floor_log2 a b\<close> is the floor of the binary logarithm of \<open>a / b\<close>, for positive
  \<open>a\<close>, \<open>b\<close>: the difference \<open>k\<close> of the bit lengths, or one less.
\<close>

definition floor_log2_adjust :: "nat \<Rightarrow> nat \<Rightarrow> int \<Rightarrow> int" where
  "floor_log2_adjust a b k =
     (if (if 0 \<le> k then b * 2 ^ nat k \<le> a else b \<le> a * 2 ^ nat (- k)) then k else k - 1)"

definition floor_log2 :: "nat \<Rightarrow> nat \<Rightarrow> int" where
  "floor_log2 a b = floor_log2_adjust a b (int (bit_length a) - int (bit_length b))"

text \<open>
  \<open>round_half_even a b\<close> is the integer nearest to \<open>a / b\<close>, a tie going to the even
  one; \<open>nearest_even q r b\<close> decides it from the quotient and the remainder.
\<close>

definition nearest_even :: "nat \<Rightarrow> nat \<Rightarrow> nat \<Rightarrow> nat" where
  "nearest_even q r b =
     (if 2 * r < b then q
      else if b < 2 * r then q + 1
      else if even q then q else q + 1)"

definition round_half_even :: "nat \<Rightarrow> nat \<Rightarrow> nat" where
  "round_half_even a b = nearest_even (a div b) (a mod b) b"

text \<open>
  \<open>to_double neg a b\<close> is the binary64 float nearest to \<open>a / b\<close> (negated when
  \<open>neg\<close>): 53 significant bits, so the unit in the last place is \<open>2 ^ e\<close> with
  \<open>e = floor_log2 a b - 52\<close>, and not less than \<open>-1074\<close> (subnormals); the result is an
  infinity from \<open>2 ^ 1024\<close> on.
\<close>

definition pack_double :: "bool \<Rightarrow> int \<Rightarrow> nat \<Rightarrow> pyfloat" where
  "pack_double neg e m =
     (if 971 < e \<or> (e = 971 \<and> 2 ^ 53 \<le> m) then Inf neg
      else Finite (if neg then - int m else int m) e)"

definition round_at :: "bool \<Rightarrow> nat \<Rightarrow> nat \<Rightarrow> int \<Rightarrow> pyfloat" where
  "round_at neg a b e =
     pack_double neg e
       (if 0 \<le> e then round_half_even a (b * 2 ^ nat e)
        else round_half_even (a * 2 ^ nat (- e)) b)"

definition to_double :: "bool \<Rightarrow> nat \<Rightarrow> nat \<Rightarrow> pyfloat" where
  "to_double neg a b =
     (if a = 0 then Finite 0 0
      else round_at neg a b (max (floor_log2 a b - 52) (- 1074)))"

text \<open>\<open>a / b\<close> on two Python ints: the correctly rounded quotient, or an exception.\<close>

definition int_truediv :: "int \<Rightarrow> int \<Rightarrow> py_error + pyfloat" where
  "int_truediv a b =
     (if b = 0 then Inl ZeroDivisionError
      else case to_double ((a < 0) \<noteq> (b < 0)) (nat \<bar>a\<bar>) (nat \<bar>b\<bar>) of
             Finite m e \<Rightarrow> Inr (Finite m e)
           | _ \<Rightarrow> Inl OverflowError)"

text \<open>The conversion of an int operand of a float operation.\<close>

definition float_of_int :: "int \<Rightarrow> py_error + pyfloat" where
  "float_of_int n =
     (case to_double (n < 0) (nat \<bar>n\<bar>) 1 of
        Finite m e \<Rightarrow> Inr (Finite m e)
      | _ \<Rightarrow> Inl OverflowError)"

text \<open>The product of two floats; an overflow gives an infinity, not an exception.\<close>

fun float_mul :: "pyfloat \<Rightarrow> pyfloat \<Rightarrow> pyfloat" where
  "float_mul (Finite m1 e1) (Finite m2 e2) =
     to_double (m1 * m2 < 0) (nat \<bar>m1 * m2\<bar> * 2 ^ nat (e1 + e2)) (2 ^ nat (- (e1 + e2)))"
| "float_mul (Finite m e) (Inf neg) = (if m = 0 then NaN else Inf ((m < 0) \<noteq> neg))"
| "float_mul (Inf neg) (Finite m e) = (if m = 0 then NaN else Inf ((m < 0) \<noteq> neg))"
| "float_mul (Inf n1) (Inf n2) = Inf (n1 \<noteq> n2)"
| "float_mul NaN _ = NaN"
| "float_mul _ NaN = NaN"

text \<open>\<open>int(x)\<close> on a float truncates towards zero.\<close>

fun int_of_float :: "pyfloat \<Rightarrow> py_error + int" where
  "int_of_float (Finite m e) =
     Inr (if 0 \<le> e then m * 2 ^ nat e else sgn m * (\<bar>m\<bar> div 2 ^ nat (- e)))"
| "int_of_float (Inf neg) = Inl OverflowError"
| "int_of_float NaN = Inl ValueError"

section \<open>Helper functions of app.py\<close>

text \<open>
  \<^verbatim>\<open>def opacity_to_255(opacity_percent): return int(255 * (opacity_percent / 100))\<close>
  The argument is the value of an integer slider, a Python int.
\<close>

definition opacity_to_255 :: "int \<Rightarrow> py_error + int" where
  "opacity_to_255 opacity_percent =
     (case int_truediv opacity_percent 100 of
        Inl err \<Rightarrow> Inl err
      | Inr q \<Rightarrow>
          (case float_of_int 255 of
             Inl err \<Rightarrow> Inl err
           | Inr c \<Rightarrow> int_of_float (float_mul c q)))"

text \<open>What the specification asks of the alpha value: \<open>round(255 * p / 100)\<close>.\<close>

definition opacity_spec :: "int \<Rightarrow> int" where
  "opacity_spec p = round (255 * of_int p / 100 :: rat)"

section \<open>Bitmaps\<close>

text \<open>
  A bitmap is a grid of pixels, RGB (three channels) or RGBA (four channels, the last one
  the alpha value), each channel a byte; the pixel data is kept row by row. Other modes of
  the imaging library (palette, greyscale, CMYK) are not modelled.
\<close>

type_synonym byte = "8 word"

type_synonym rgb = "byte \<times> byte \<times> byte"

type_synonym rgba = "byte \<times> byte \<times> byte \<times> byte"

datatype pixels = RGB "rgb list" | RGBA "rgba list"

record bitmap =
  width :: nat
  height :: nat
  pixel_data :: pixels

text \<open>The colour channels of every pixel, and the alpha channel when there is one.\<close>

fun rgb_values :: "pixels \<Rightarrow> rgb list" where
  "rgb_values (RGB ps) = ps"
| "rgb_values (RGBA ps) = map (\<lambda>(r, g, b, a). (r, g, b)) ps"

fun alpha_values :: "pixels \<Rightarrow> byte list option" where
  "alpha_values (RGB ps) = None"
| "alpha_values (RGBA ps) = Some (map (\<lambda>(r, g, b, a). a) ps)"

text \<open>
  \<^verbatim>\<open>image.convert("RGBA")\<close>: an RGB bitmap gets an alpha channel of 255 everywhere, an
  RGBA bitmap is copied.
\<close>

fun convert_RGBA_pixels :: "pixels \<Rightarrow> pixels" where
  "convert_RGBA_pixels (RGB ps) = RGBA (map (\<lambda>(r, g, b). (r, g, b, 255)) ps)"
| "convert_RGBA_pixels (RGBA ps) = RGBA ps"

definition convert_RGBA :: "bitmap \<Rightarrow> bitmap" where
  "convert_RGBA img = img\<lparr>pixel_data := convert_RGBA_pixels (pixel_data img)\<rparr>"

section \<open>External collaborators\<close>

text \<open>
  What the program calls and does not define: the matting function \<open>remove\<close> (it returns
  a bitmap, or raises with a message), the fonts that can be loaded, the measuring and the
  drawing of text, the resampling filter, the WEBP encoder, the random identifier, and
  what the image widget of the framework does when it is handed \<open>None\<close> (it raises, or
  it returns). They are parameters of the model.
\<close>

record 'font external =
  remove :: "bitmap \<Rightarrow> string + bitmap"
  truetype :: "string \<Rightarrow> int \<Rightarrow> 'font option"
  load_default :: "'font"
  textbbox :: "'font \<Rightarrow> string \<Rightarrow> int \<times> int \<times> int \<times> int"
  draw_text :: "bitmap \<Rightarrow> int \<times> int \<Rightarrow> string \<Rightarrow> 'font \<Rightarrow> int \<times> int \<times> int \<times> int \<Rightarrow> bitmap"
  resample :: "pixels \<Rightarrow> nat \<times> nat \<Rightarrow> nat \<times> nat \<Rightarrow> pixels"
  webp_encode :: "bitmap \<Rightarrow> int \<Rightarrow> byte list"
  uuid4_hex :: "string"
  image_widget_on_None :: "py_error option"

text \<open>
  \<^verbatim>\<open>img.resize((w, h), Image.LANCZOS)\<close>: a bitmap of the requested size, its pixels
  computed by the filter from the source pixels.
\<close>

definition resize :: "'font external \<Rightarrow> bitmap \<Rightarrow> nat \<times> nat \<Rightarrow> bitmap" where
  "resize ext img dims =
     \<lparr>width = fst dims, height = snd dims,
      pixel_data = resample ext (pixel_data img) (width img, height img) dims\<rparr>"

section \<open>Step 5: the export\<close>

text \<open>The files on disk: a name has a content or none.\<close>

type_synonym files = "string \<rightharpoonup> byte list"

definition getsize :: "files \<Rightarrow> string \<Rightarrow> nat" where
  "getsize fs name = (case fs name of None \<Rightarrow> 0 | Some content \<Rightarrow> length content)"

text \<open>
  The loop of \<open>make_whatsapp_sticker\<close>:
  \<^verbatim>\<open>
  quality = 90
  while quality >= 20:
      img.save(file_name, "WEBP", quality=quality, method=6)
      if os.path.getsize(file_name) <= 100 * 1024: break
      quality -= 10
  \<close>
  The state is the files and the list of the qualities encoded so far.
\<close>

function save_loop ::
  "(bitmap \<Rightarrow> int \<Rightarrow> byte list) \<Rightarrow> bitmap \<Rightarrow> string \<Rightarrow> int \<Rightarrow> files \<times> int list \<Rightarrow> files \<times> int list"
where
  "save_loop encode img file_name quality (fs, encoded) =
     (if 20 \<le> quality then
        (if getsize (fs(file_name \<mapsto> encode img quality)) file_name \<le> 100 * 1024
         then (fs(file_name \<mapsto> encode img quality), encoded @ [quality])
         else save_loop encode img file_name (quality - 10)
                (fs(file_name \<mapsto> encode img quality), encoded @ [quality]))
      else (fs, encoded))"
  by pat_completeness auto
termination
  by (relation "measure (\<lambda>(encode, img, file_name, quality, state). nat quality)") auto

declare save_loop.simps [simp del]

text \<open>
  \<^verbatim>\<open>img = img.convert("RGBA").resize((512, 512), Image.LANCZOS)\<close>, the bitmap that is
  encoded.
\<close>

definition sticker_bitmap :: "'font external \<Rightarrow> bitmap \<Rightarrow> bitmap" where
  "sticker_bitmap ext img = resize ext (convert_RGBA img) (512, 512)"

record export =
  file_name :: string
  files_after :: files
  encoded_at :: "int list"

definition make_whatsapp_sticker ::
  "'font external \<Rightarrow> files \<Rightarrow> bitmap \<Rightarrow> string \<Rightarrow> export" where
  "make_whatsapp_sticker ext fs img name_prefix =
     (let img' = sticker_bitmap ext img;
          unique_id = take 8 (uuid4_hex ext);
          name = name_prefix @ ''_'' @ unique_id @ ''.webp'';
          result = save_loop (webp_encode ext) img' name 90 (fs, [])
      in \<lparr>file_name = name, files_after = fst result, encoded_at = snd result\<rparr>)"

text \<open>The qualities from \<open>q\<close> down to 20, in steps of 10: the values the loop can reach.\<close>

function descending :: "int \<Rightarrow> int list" where
  "descending q = (if 20 \<le> q then q # descending (q - 10) else [])"
  by pat_completeness auto
termination
  by (relation "measure nat") auto

declare descending.simps [simp del]

section \<open>Evaluation of the float model\<close>

text \<open>The bit length of a numeral follows its binary digits.\<close>

lemma bit_length_0: "bit_length 0 = 0"
  by (simp add: bit_length.simps)

lemma bit_length_1: "bit_length 1 = 1"
  by (simp add: bit_length.simps)

lemma bit_length_One: "bit_length (numeral Num.One) = 1"
  by (simp add: bit_length.simps)

lemma bit_length_Bit0: "bit_length (numeral (Num.Bit0 n)) = 1 + bit_length (numeral n)"
  by (subst bit_length.simps) simp

lemma bit_length_Bit1: "bit_length (numeral (Num.Bit1 n)) = 1 + bit_length (numeral n)"
  by (subst bit_length.simps) simp

lemmas float_eval =
  opacity_to_255_def int_truediv_def float_of_int_def to_double_def round_at_def
  pack_double_def floor_log2_def floor_log2_adjust_def round_half_even_def nearest_even_def
  bit_length_0 bit_length_1 bit_length_One bit_length_Bit0 bit_length_Bit1

text \<open>
  \<open>opacity_to_255\<close> on each value of the slider, ten at a time: the float computation is
  evaluated and compared with the integer quotient.
\<close>

lemma opacity_at_0: "opacity_to_255 0 = Inr 0"
  by (simp add: float_eval)

lemma opacity_from_1_to_10_values:
  "opacity_to_255 1 = Inr 2 \<and>
   opacity_to_255 2 = Inr 5 \<and>
   opacity_to_255 3 = Inr 7 \<and>
   opacity_to_255 4 = Inr 10 \<and>
   opacity_to_255 5 = Inr 12 \<and>
   opacity_to_255 6 = Inr 15 \<and>
   opacity_to_255 7 = Inr 17 \<and>
   opacity_to_255 8 = Inr 20 \<and>
   opacity_to_255 9 = Inr 22 \<and>
   opacity_to_255 10 = Inr 25"
  by (simp add: float_eval)

lemma opacity_from_1_to_10:
  assumes "1 \<le> p" and "p \<le> 10"
  shows "opacity_to_255 p = Inr (255 * p div 100)"
proof -
  from assms have "p = 1 \<or> p = 2 \<or> p = 3 \<or> p = 4 \<or> p = 5 \<or> p = 6 \<or> p = 7 \<or> p = 8 \<or> p = 9 \<or> p = 10"
    by arith
  then show ?thesis
    using opacity_from_1_to_10_values by auto
qed

lemma opacity_from_11_to_20_values:
  "opacity_to_255 11 = Inr 28 \<and>
   opacity_to_255 12 = Inr 30 \<and>
   opacity_to_255 13 = Inr 33 \<and>
   opacity_to_255 14 = Inr 35 \<and>
   opacity_to_255 15 = Inr 38 \<and>
   opacity_to_255 16 = Inr 40 \<and>
   opacity_to_255 17 = Inr 43 \<and>
   opacity_to_255 18 = Inr 45 \<and>
   opacity_to_255 19 = Inr 48 \<and>
   opacity_to_255 20 = Inr 51"
  by (simp add: float_eval)

lemma opacity_from_11_to_20:
  assumes "11 \<le> p" and "p \<le> 20"
  shows "opacity_to_255 p = Inr (255 * p div 100)"
proof -
  from assms have "p = 11 \<or> p = 12 \<or> p = 13 \<or> p = 14 \<or> p = 15 \<or> p = 16 \<or> p = 17 \<or> p = 18 \<or> p = 19 \<or> p = 20"
    by arith
  then show ?thesis
    using opacity_from_11_to_20_values by auto
qed

lemma opacity_from_21_to_30_values:
  "opacity_to_255 21 = Inr 53 \<and>
   opacity_to_255 22 = Inr 56 \<and>
   opacity_to_255 23 = Inr 58 \<and>
   opacity_to_255 24 = Inr 61 \<and>
   opacity_to_255 25 = Inr 63 \<and>
   opacity_to_255 26 = Inr 66 \<and>
   opacity_to_255 27 = Inr 68 \<and>
   opacity_to_255 28 = Inr 71 \<and>
   opacity_to_255 29 = Inr 73 \<and>
   opacity_to_255 30 = Inr 76"
  by (simp add: float_eval)

lemma opacity_from_21_to_30:
  assumes "21 \<le> p" and "p \<le> 30"
  shows "opacity_to_255 p = Inr (255 * p div 100)"
proof -
  from assms have "p = 21 \<or> p = 22 \<or> p = 23 \<or> p = 24 \<or> p = 25 \<or> p = 26 \<or> p = 27 \<or> p = 28 \<or> p = 29 \<or> p = 30"
    by arith
  then show ?thesis
    using opacity_from_21_to_30_values by auto
qed

lemma opacity_from_31_to_40_values:
  "opacity_to_255 31 = Inr 79 \<and>
   opacity_to_255 32 = Inr 81 \<and>
   opacity_to_255 33 = Inr 84 \<and>
   opacity_to_255 34 = Inr 86 \<and>
   opacity_to_255 35 = Inr 89 \<and>
   opacity_to_255 36 = Inr 91 \<and>
   opacity_to_255 37 = Inr 94 \<and>
   opacity_to_255 38 = Inr 96 \<and>
   opacity_to_255 39 = Inr 99 \<and>
   opacity_to_255 40 = Inr 102"
  by (simp add: float_eval)

lemma opacity_from_31_to_40:
  assumes "31 \<le> p" and "p \<le> 40"
  shows "opacity_to_255 p = Inr (255 * p div 100)"
proof -
  from assms have "p = 31 \<or> p = 32 \<or> p = 33 \<or> p = 34 \<or> p = 35 \<or> p = 36 \<or> p = 37 \<or> p = 38 \<or> p = 39 \<or> p = 40"
    by arith
  then show ?thesis
    using opacity_from_31_to_40_values by auto
qed

lemma opacity_from_41_to_50_values:
  "opacity_to_255 41 = Inr 104 \<and>
   opacity_to_255 42 = Inr 107 \<and>
   opacity_to_255 43 = Inr 109 \<and>
   opacity_to_255 44 = Inr 112 \<and>
   opacity_to_255 45 = Inr 114 \<and>
   opacity_to_255 46 = Inr 117 \<and>
   opacity_to_255 47 = Inr 119 \<and>
   opacity_to_255 48 = Inr 122 \<and>
   opacity_to_255 49 = Inr 124 \<and>
   opacity_to_255 50 = Inr 127"
  by (simp add: float_eval)

lemma opacity_from_41_to_50:
  assumes "41 \<le> p" and "p \<le> 50"
  shows "opacity_to_255 p = Inr (255 * p div 100)"
proof -
  from assms have "p = 41 \<or> p = 42 \<or> p = 43 \<or> p = 44 \<or> p = 45 \<or> p = 46 \<or> p = 47 \<or> p = 48 \<or> p = 49 \<or> p = 50"
    by arith
  then show ?thesis
    using opacity_from_41_to_50_values by auto
qed

lemma opacity_from_51_to_60_values:
  "opacity_to_255 51 = Inr 130 \<and>
   opacity_to_255 52 = Inr 132 \<and>
   opacity_to_255 53 = Inr 135 \<and>
   opacity_to_255 54 = Inr 137 \<and>
   opacity_to_255 55 = Inr 140 \<and>
   opacity_to_255 56 = Inr 142 \<and>
   opacity_to_255 57 = Inr 145 \<and>
   opacity_to_255 58 = Inr 147 \<and>
   opacity_to_255 59 = Inr 150 \<and>
   opacity_to_255 60 = Inr 153"
  by (simp add: float_eval)

lemma opacity_from_51_to_60:
  assumes "51 \<le> p" and "p \<le> 60"
  shows "opacity_to_255 p = Inr (255 * p div 100)"
proof -
  from assms have "p = 51 \<or> p = 52 \<or> p = 53 \<or> p = 54 \<or> p = 55 \<or> p = 56 \<or> p = 57 \<or> p = 58 \<or> p = 59 \<or> p = 60"
    by arith
  then show ?thesis
    using opacity_from_51_to_60_values by auto
qed

lemma opacity_from_61_to_70_values:
  "opacity_to_255 61 = Inr 155 \<and>
   opacity_to_255 62 = Inr 158 \<and>
   opacity_to_255 63 = Inr 160 \<and>
   opacity_to_255 64 = Inr 163 \<and>
   opacity_to_255 65 = Inr 165 \<and>
   opacity_to_255 66 = Inr 168 \<and>
   opacity_to_255 67 = Inr 170 \<and>
   opacity_to_255 68 = Inr 173 \<and>
   opacity_to_255 69 = Inr 175 \<and>
   opacity_to_255 70 = Inr 178"
  by (simp add: float_eval)

lemma opacity_from_61_to_70:
  assumes "61 \<le> p" and "p \<le> 70"
  shows "opacity_to_255 p = Inr (255 * p div 100)"
proof -
  from assms have "p = 61 \<or> p = 62 \<or> p = 63 \<or> p = 64 \<or> p = 65 \<or> p = 66 \<or> p = 67 \<or> p = 68 \<or> p = 69 \<or> p = 70"
    by arith
  then show ?thesis
    using opacity_from_61_to_70_values by auto
qed

lemma opacity_from_71_to_80_values:
  "opacity_to_255 71 = Inr 181 \<and>
   opacity_to_255 72 = Inr 183 \<and>
   opacity_to_255 73 = Inr 186 \<and>
   opacity_to_255 74 = Inr 188 \<and>
   opacity_to_255 75 = Inr 191 \<and>
   opacity_to_255 76 = Inr 193 \<and>
   opacity_to_255 77 = Inr 196 \<and>
   opacity_to_255 78 = Inr 198 \<and>
   opacity_to_255 79 = Inr 201 \<and>
   opacity_to_255 80 = Inr 204"
  by (simp add: float_eval)

lemma opacity_from_71_to_80:
  assumes "71 \<le> p" and "p \<le> 80"
  shows "opacity_to_255 p = Inr (255 * p div 100)"
proof -
  from assms have "p = 71 \<or> p = 72 \<or> p = 73 \<or> p = 74 \<or> p = 75 \<or> p = 76 \<or> p = 77 \<or> p = 78 \<or> p = 79 \<or> p = 80"
    by arith
  then show ?thesis
    using opacity_from_71_to_80_values by auto
qed

lemma opacity_from_81_to_90_values:
  "opacity_to_255 81 = Inr 206 \<and>
   opacity_to_255 82 = Inr 209 \<and>
   opacity_to_255 83 = Inr 211 \<and>
   opacity_to_255 84 = Inr 214 \<and>
   opacity_to_255 85 = Inr 216 \<and>
   opacity_to_255 86 = Inr 219 \<and>
   opacity_to_255 87 = Inr 221 \<and>
   opacity_to_255 88 = Inr 224 \<and>
   opacity_to_255 89 = Inr 226 \<and>
   opacity_to_255 90 = Inr 229"
  by (simp add: float_eval)

lemma opacity_from_81_to_90:
  assumes "81 \<le> p" and "p \<le> 90"
  shows "opacity_to_255 p = Inr (255 * p div 100)"
proof -
  from assms have "p = 81 \<or> p = 82 \<or> p = 83 \<or> p = 84 \<or> p = 85 \<or> p = 86 \<or> p = 87 \<or> p = 88 \<or> p = 89 \<or> p = 90"
    by arith
  then show ?thesis
    using opacity_from_81_to_90_values by auto
qed

lemma opacity_from_91_to_100_values:
  "opacity_to_255 91 = Inr 232 \<and>
   opacity_to_255 92 = Inr 234 \<and>
   opacity_to_255 93 = Inr 237 \<and>
   opacity_to_255 94 = Inr 239 \<and>
   opacity_to_255 95 = Inr 242 \<and>
   opacity_to_255 96 = Inr 244 \<and>
   opacity_to_255 97 = Inr 247 \<and>
   opacity_to_255 98 = Inr 249 \<and>
   opacity_to_255 99 = Inr 252 \<and>
   opacity_to_255 100 = Inr 255"
  by (simp add: float_eval)

lemma opacity_from_91_to_100:
  assumes "91 \<le> p" and "p \<le> 100"
  shows "opacity_to_255 p = Inr (255 * p div 100)"
proof -
  from assms have "p = 91 \<or> p = 92 \<or> p = 93 \<or> p = 94 \<or> p = 95 \<or> p = 96 \<or> p = 97 \<or> p = 98 \<or> p = 99 \<or> p = 100"
    by arith
  then show ?thesis
    using opacity_from_91_to_100_values by auto
qed

text \<open>On the whole range of the slider the result is the integer quotient, rounded down.\<close>

lemma opacity_to_255_table:
  assumes "0 \<le> p" and "p \<le> 100"
  shows "opacity_to_255 p = Inr (255 * p div 100)"
proof -
  consider "p = 0" | "1 \<le> p \<and> p \<le> 10" | "11 \<le> p \<and> p \<le> 20" | "21 \<le> p \<and> p \<le> 30" | "31 \<le> p \<and> p \<le> 40" | "41 \<le> p \<and> p \<le> 50" | "51 \<le> p \<and> p \<le> 60" | "61 \<le> p \<and> p \<le> 70" | "71 \<le> p \<and> p \<le> 80" | "81 \<le> p \<and> p \<le> 90" | "91 \<le> p \<and> p \<le> 100"
    using assms by arith
  then show ?thesis
  proof cases
    case 1
    then show ?thesis by (simp add: opacity_at_0)
  next
    case 2
    then show ?thesis by (simp add: opacity_from_1_to_10)
  next
    case 3
    then show ?thesis by (simp add: opacity_from_11_to_20)
  next
    case 4
    then show ?thesis by (simp add: opacity_from_21_to_30)
  next
    case 5
    then show ?thesis by (simp add: opacity_from_31_to_40)
  next
    case 6
    then show ?thesis by (simp add: opacity_from_41_to_50)
  next
    case 7
    then show ?thesis by (simp add: opacity_from_51_to_60)
  next
    case 8
    then show ?thesis by (simp add: opacity_from_61_to_70)
  next
    case 9
    then show ?thesis by (simp add: opacity_from_71_to_80)
  next
    case 10
    then show ?thesis by (simp add: opacity_from_81_to_90)
  next
    case 11
    then show ?thesis by (simp add: opacity_from_91_to_100)
  qed
qed

section \<open>The alpha value of the text colour\<close>

text \<open>
  C1 (as the specification states it): for every opacity percentage \<open>p\<close> in \<open>[0, 100]\<close>,
  \<open>opacity_to_255 p\<close> equals \<open>round (255 * p / 100)\<close>. The code truncates with
  \<open>int()\<close>: at \<open>p = 1\<close> the product is \<open>2.55\<close>, the code returns \<open>2\<close> and the
  rounded value is \<open>3\<close>.
\<close>

theorem opacity_to_255_round_counterexample:
  "opacity_to_255 1 \<noteq> Inr (opacity_spec 1)"
proof -
  have "opacity_to_255 1 = Inr 2"
    using opacity_from_1_to_10 [of 1] by simp
  moreover have "\<lfloor>61 / 20 :: rat\<rfloor> = 3"
    by (rule floor_unique) simp_all
  then have "opacity_spec 1 = 3"
    by (simp add: opacity_spec_def round_def)
  ultimately show ?thesis by simp
qed

text \<open>
  C1 (amended): for every integer opacity percentage \<open>p\<close> in \<open>[0, 100]\<close>,
  \<open>opacity_to_255 p\<close> returns \<open>255 * p / 100\<close> rounded down to an integer; in
  particular \<open>p = 0\<close> yields alpha \<open>0\<close> and \<open>p = 100\<close> yields alpha \<open>255\<close>.
\<close>

theorem opacity_to_255_floor:
  "0 \<le> p \<Longrightarrow> p \<le> 100 \<Longrightarrow> opacity_to_255 p = Inr (255 * p div 100)"
  by (rule opacity_to_255_table)

theorem opacity_to_255_floor_witness:
  "(0::int) \<le> 100 \<and> opacity_to_255 100 = Inr 255 \<and> opacity_to_255 0 = Inr 0"
  using opacity_to_255_floor [of 100] opacity_to_255_floor [of 0] by simp

text \<open>
  C10: on \<open>[0, 100]\<close> \<open>opacity_to_255\<close> returns a value (it raises nothing), the value
  lies in \<open>[0, 255]\<close>, and a larger percentage never gives a smaller value.
\<close>

theorem opacity_to_255_monotone_bounded:
  assumes "0 \<le> p" and "p \<le> q" and "q \<le> 100"
  shows "\<exists>a b. opacity_to_255 p = Inr a \<and> opacity_to_255 q = Inr b \<and>
           0 \<le> a \<and> a \<le> b \<and> b \<le> 255"
proof -
  have p: "opacity_to_255 p = Inr (255 * p div 100)"
    using assms by (intro opacity_to_255_table) auto
  have q: "opacity_to_255 q = Inr (255 * q div 100)"
    using assms by (intro opacity_to_255_table) auto
  have "0 \<le> 255 * p div 100"
    using assms by simp
  moreover have "255 * p div 100 \<le> 255 * q div 100"
    using assms by (intro zdiv_mono1) auto
  moreover have "255 * q div 100 \<le> 255"
    using assms by simp
  ultimately show ?thesis
    using p q by blast
qed

theorem opacity_to_255_monotone_bounded_witness:
  "\<exists>a b. opacity_to_255 20 = Inr a \<and> opacity_to_255 60 = Inr b \<and>
     0 \<le> a \<and> a \<le> b \<and> b \<le> 255"
  using opacity_to_255_monotone_bounded [of 20 60] by simp

end
